theory Spec2Isabelle
  imports Complex_Main
begin

section \<open>Data model (the shared type declarations)\<close>

text \<open>
  Numbers. The match scores the page records in feedback events are produced by
  \<open>similarityToScore\<close> (\<open>Math.round(...)\<close>) or are the constant 100, so such a score
  is an integer-valued double; these scores and the cutoffs are modelled as
  \<^typ>\<open>int\<close>, counters as \<^typ>\<open>nat\<close>, and the two ratios the code computes (the hide
  rate and the confidence ramp) as \<^typ>\<open>rat\<close>. The confidence ramp \<open>n / 20 * 100\<close> is the integer \<open>5 * n\<close>; the
  double the code computes differs from it by less than 1/2 and \<open>Math.round\<close> returns
  \<open>5 * n\<close> in both. Timestamps (\<open>new Date().toISOString()\<close>) and generated identifiers are
  strings handed to the model by the caller, one argument per read of the clock.
\<close>

datatype action = Saved | Hidden | Viewed | Ignored

record UserFeedback =
  fb_id :: string
  fb_inboxId :: string
  fb_contractId :: string
  action :: action
  fb_matchScore :: int
  fb_timestamp :: string
  hideReason :: "string option"
  viewDuration :: "rat option"

record PromptRefinement =
  originalPrompt :: string
  refinedPrompt :: "string option"
  pr_hideReason :: string
  pr_matchScore :: int
  pr_timestamp :: string

record ThresholdAdjustments =
  expandedCount :: nat
  narrowedCount :: nat
  lastAdjustment :: string

record InboxLearningMetrics =
  lm_inboxId :: string
  minRelevanceScore :: int
  maxIrrelevanceScore :: int
  dynamicMinScore :: int
  thresholdAdjustments :: ThresholdAdjustments
  promptRefinements :: "PromptRefinement list"
  pendingPromptUpdate :: bool
  totalFeedback :: nat
  savedContracts :: nat
  hiddenContracts :: nat
  viewedContracts :: nat
  authorityBoosts :: "(string \<times> rat) list"
  classificationBoosts :: "(string \<times> rat) list"
  confidenceLevel :: int
  lastUpdated :: string

record HiddenMeta =
  hiddenBy :: "string option"
  hiddenDate :: string
  hiddenReason :: "string option"

record Contract =
  c_id :: string
  title :: string
  description :: string
  authority :: string
  c_value :: "rat option"
  closeDate :: string
  publishDate :: string
  url :: string
  buyerClassification :: string
  c_embedding :: "rat list option"
  isNew :: bool
  isSaved :: bool
  isUnread :: bool
  hiddenInInboxes :: "string list option"
  hiddenMetadata :: "(string \<rightharpoonup> HiddenMeta) option"
  c_matchScore :: "int option"
  snippet :: "string option"
  deadline :: "string option"
  c_explanation :: "string option"

record InboxFilters =
  valueMin :: "rat option"
  valueMax :: "rat option"
  buyerTypes :: "string list option"
  locations :: "string list option"

record Inbox =
  inbox_id :: string
  name :: string
  prompt :: string
  inbox_embedding :: "rat list option"
  createdAt :: string
  updatedAt :: string
  unreadCount :: nat
  isAllContractsInbox :: "bool option"
  filters :: "InboxFilters option"
  learningMetrics :: "InboxLearningMetrics option"

text \<open>
  The score of a search result is whatever number the caller of the ranking pipeline
  hands in, and the boost stage can turn it into \<open>NaN\<close>: a finite number (a
  rational; \<open>-0\<close> is \<open>0\<close>, as for \<open>===\<close>) or \<open>NaN\<close>. The infinities are not modelled.
\<close>

datatype js_number = Num rat | NaN

record SearchResult =
  contract :: Contract
  sr_matchScore :: js_number
  sr_explanation :: "string option"

section \<open>The Dynamic Threshold Controller (lib/learning.ts)\<close>

text \<open>\<open>Math.round\<close>: the nearest integer, halves rounded up.\<close>

definition Math_round :: "rat \<Rightarrow> int" where
  "Math_round x = \<lfloor>x + 1 / 2\<rfloor>"

text \<open>
  The optional \<open>reason\<close> string of the controller's result: the two template strings
  of the source, with the number each interpolates.
\<close>

datatype reason = Expanded nat | Narrowed int

record ThresholdResult =
  threshold :: int
  reason :: "reason option"

text \<open>
  \<open>calculateDynamicThreshold(feedbackEvents, currentThreshold)\<close>.
  \<open>feedbackEvents.slice(-20)\<close> keeps the last 20 elements (all of them when there are
  fewer). The hide rate is the quotient of two counts of at most 20; on such
  quotients the comparison with the literal \<open>0.6\<close> agrees between doubles and
  rationals (a quotient equal to 3/5 rounds to the double the literal denotes, every
  other one differs from it by at least 1/100), and \<open>0 / 0\<close> (NaN in the source, 0
  here) fails the comparison in both.
\<close>

definition calculateDynamicThreshold :: "UserFeedback list \<Rightarrow> int \<Rightarrow> ThresholdResult" where
  "calculateDynamicThreshold feedbackEvents currentThreshold =
     (if length feedbackEvents < 10 then \<lparr>threshold = currentThreshold, reason = None\<rparr>
      else
        let recentFeedback = drop (length feedbackEvents - 20) feedbackEvents;
            recentSaves = filter (\<lambda>f. action f = Saved) recentFeedback;
            recentHides = filter (\<lambda>f. action f = Hidden) recentFeedback;
            lowScoreSaves =
              filter (\<lambda>f. fb_matchScore f < currentThreshold + 10 \<and> fb_matchScore f > 0) recentSaves;
            expanded =
              (if length lowScoreSaves \<ge> 3 \<and> length recentSaves \<ge> 5
               then (max 30 (currentThreshold - 10), Some (Expanded (length lowScoreSaves)))
               else (currentThreshold, None));
            totalActions = length recentSaves + length recentHides;
            hideRate = (of_nat (length recentHides) / of_nat totalActions :: rat);
            narrowed =
              (if hideRate > 6 / 10 \<and> totalActions \<ge> 10
               then (min 70 (currentThreshold + 10), Some (Narrowed (Math_round (hideRate * 100))))
               else expanded)
        in \<lparr>threshold = max 30 (min 70 (fst narrowed)), reason = snd narrowed\<rparr>)"

section \<open>The Feedback Ledger and the Pattern Analyzer (lib/feedback-storage.ts)\<close>

text \<open>
  An IndexedDB database either cannot be opened or read (the \<open>await\<close> rejects) or
  holds its rows. The feedback store is the list of its rows in key order, the order
  in which \<open>index.getAll\<close> returns the rows of one inbox.
\<close>

datatype error = IDBError

type_synonym feedback_db = "error + UserFeedback list"

text \<open>
  An object store with a key path: \<open>get\<close> returns the row stored under a key,
  \<open>put\<close> replaces the row that has the key of the new row, or adds the new row.
\<close>

definition idb_get :: "('r \<Rightarrow> string) \<Rightarrow> 'r list \<Rightarrow> string \<Rightarrow> 'r option" where
  "idb_get keyPath rows k = find (\<lambda>r. keyPath r = k) rows"

definition idb_put :: "('r \<Rightarrow> string) \<Rightarrow> 'r list \<Rightarrow> 'r \<Rightarrow> 'r list" where
  "idb_put keyPath rows x =
     (if keyPath x \<in> set (map keyPath rows)
      then map (\<lambda>r. if keyPath r = keyPath x then x else r) rows
      else rows @ [x])"

text \<open>\<open>getFeedbackForInbox\<close>: a failed read is caught and answered with \<open>[]\<close>.\<close>

definition getFeedbackForInbox :: "feedback_db \<Rightarrow> string \<Rightarrow> UserFeedback list" where
  "getFeedbackForInbox db inboxId =
     (case db of
        Inl e \<Rightarrow> []
      | Inr rows \<Rightarrow> filter (\<lambda>f. fb_inboxId f = inboxId) rows)"

text \<open>
  \<open>recordFeedback\<close>: \<open>newId\<close> and \<open>now\<close> are the generated identifier and the clock
  reading. The new row is appended: a fresh identifier starts with the clock's
  milliseconds and is taken to sort after the stored ones, which holds when its clock
  reading is later than theirs. Two identifiers of one millisecond are ordered by
  their random suffixes; the model leaves that case out. A failure is rethrown.
\<close>

definition recordFeedback ::
  "feedback_db \<Rightarrow> string \<Rightarrow> string \<Rightarrow> string \<Rightarrow> string \<Rightarrow> action \<Rightarrow> int \<Rightarrow> string option \<Rightarrow> rat option
     \<Rightarrow> (error + UserFeedback) \<times> feedback_db" where
  "recordFeedback db newId now inboxId contractId act score hideReason' viewDuration' =
     (let feedback = \<lparr>fb_id = newId, fb_inboxId = inboxId, fb_contractId = contractId,
                       action = act, fb_matchScore = score, fb_timestamp = now,
                       hideReason = hideReason', viewDuration = viewDuration'\<rparr>
      in case db of
           Inl e \<Rightarrow> (Inl e, db)
         | Inr rows \<Rightarrow> (Inr feedback, Inr (idb_put fb_id rows feedback)))"

text \<open>
  \<open>analyzeFeedbackPatterns(inboxId)\<close>, given the feedback database and the two
  readings of the clock it makes (\<open>lastAdjustment\<close>, then \<open>lastUpdated\<close>). Its body
  sits in a \<open>try\<close> whose handler rethrows, so the result is a sum.
  \<open>Math.min(...savedScores)\<close> and \<open>Math.max(...hiddenScores)\<close> are evaluated on a
  non-empty list only, as folds over its tail.
\<close>

definition analyzeFeedbackPatterns ::
  "feedback_db \<Rightarrow> string \<Rightarrow> string \<Rightarrow> string \<Rightarrow> error + InboxLearningMetrics" where
  "analyzeFeedbackPatterns db inboxId adjustedAt updatedAt' =
     (let feedback = getFeedbackForInbox db inboxId in
      if length feedback = 0 then
        Inr \<lparr>lm_inboxId = inboxId,
             minRelevanceScore = 0,
             maxIrrelevanceScore = 100,
             dynamicMinScore = 30,
             thresholdAdjustments =
               \<lparr>expandedCount = 0, narrowedCount = 0, lastAdjustment = adjustedAt\<rparr>,
             promptRefinements = [],
             pendingPromptUpdate = False,
             totalFeedback = 0,
             savedContracts = 0,
             hiddenContracts = 0,
             viewedContracts = 0,
             authorityBoosts = [],
             classificationBoosts = [],
             confidenceLevel = 0,
             lastUpdated = updatedAt'\<rparr>
      else
        let saved = filter (\<lambda>f. action f = Saved) feedback;
            hidden = filter (\<lambda>f. action f = Hidden) feedback;
            viewed = filter (\<lambda>f. action f = Viewed) feedback;
            savedScores = map fb_matchScore saved;
            hiddenScores = map fb_matchScore hidden;
            minRelevanceScore' =
              (case savedScores of
                 [] \<Rightarrow> 0
               | s # ss \<Rightarrow> (let minSaved = fold min ss s in max 0 (minSaved - 10)));
            maxIrrelevanceScore' =
              (case hiddenScores of
                 [] \<Rightarrow> 100
               | h # hs \<Rightarrow> (let maxHidden = fold max hs h in min 100 (maxHidden + 5)));
            confidenceLevel' = (min 100 (of_nat (length feedback) / 20 * 100) :: rat);
            currentThreshold = 50;
            dynamicMinScore' = threshold (calculateDynamicThreshold feedback currentThreshold)
        in Inr \<lparr>lm_inboxId = inboxId,
                minRelevanceScore = Math_round (of_int minRelevanceScore'),
                maxIrrelevanceScore = Math_round (of_int maxIrrelevanceScore'),
                dynamicMinScore = dynamicMinScore',
                thresholdAdjustments =
                  \<lparr>expandedCount = (if dynamicMinScore' < currentThreshold then 1 else 0),
                   narrowedCount = (if dynamicMinScore' > currentThreshold then 1 else 0),
                   lastAdjustment = adjustedAt\<rparr>,
                promptRefinements = [],
                pendingPromptUpdate = False,
                totalFeedback = length feedback,
                savedContracts = length saved,
                hiddenContracts = length hidden,
                viewedContracts = length viewed,
                authorityBoosts = [],
                classificationBoosts = [],
                confidenceLevel = Math_round confidenceLevel',
                lastUpdated = updatedAt'\<rparr>)"

section \<open>The Adaptive Ranking Pipeline (lib/learning.ts)\<close>




text \<open>
  \<open>boosts[key] || 0\<close>. The boost maps are plain objects, so the read finds the map's
  own entry if there is one, and otherwise what the key names on \<open>Object.prototype\<close>: a
  function, or for \<open>__proto__\<close> the prototype itself, each truthy and not a number. Only
  for any other key is the read \<open>undefined\<close> and the result 0. A stored 0 reads as 0.
\<close>

definition objectPrototypeMembers :: "string list" where
  "objectPrototypeMembers =
     [''constructor'', ''__defineGetter__'', ''__defineSetter__'', ''hasOwnProperty'',
      ''__lookupGetter__'', ''__lookupSetter__'', ''isPrototypeOf'', ''propertyIsEnumerable'',
      ''toString'', ''valueOf'', ''__proto__'', ''toLocaleString'']"

datatype boost_entry = BoostNumber rat | PrototypeMember

definition boostFor :: "(string \<times> rat) list \<Rightarrow> string \<Rightarrow> boost_entry" where
  "boostFor boosts key =
     (case map_of boosts key of
        Some b \<Rightarrow> BoostNumber b
      | None \<Rightarrow> if key \<in> set objectPrototypeMembers then PrototypeMember else BoostNumber 0)"

text \<open>
  The running \<open>adjustedScore\<close>: a number, or, once a prototype member has been added
  to it, the string that \<open>+=\<close> concatenates (the score followed by the member's source
  text, never a numeric literal). \<open>if (boost !== 0) adjustedScore += boost\<close>; the sum
  of two numbers is the exact one, where the code rounds it to a double.
\<close>

datatype js_value = Number js_number | NotNumeric

definition addBoost :: "js_value \<Rightarrow> boost_entry \<Rightarrow> js_value" where
  "addBoost adjustedScore boost =
     (case boost of
        PrototypeMember \<Rightarrow> NotNumeric
      | BoostNumber b \<Rightarrow>
          if b \<noteq> 0 then
            (case adjustedScore of
               Number (Num x) \<Rightarrow> Number (Num (x + b))
             | Number NaN \<Rightarrow> Number NaN
             | NotNumeric \<Rightarrow> NotNumeric)
          else adjustedScore)"

text \<open>
  \<open>Math.round\<close> of the running score (\<open>NaN\<close> on a string that is not numeric), and
  \<open>Math.min(bound, v)\<close>, \<open>Math.max(bound, v)\<close>, which are \<open>NaN\<close> on \<open>NaN\<close>.
\<close>

definition js_round :: "js_value \<Rightarrow> js_number" where
  "js_round v =
     (case v of
        Number (Num x) \<Rightarrow> Num (of_int (Math_round x))
      | Number NaN \<Rightarrow> NaN
      | NotNumeric \<Rightarrow> NaN)"

definition js_min :: "rat \<Rightarrow> js_number \<Rightarrow> js_number" where
  "js_min bound v = (case v of Num x \<Rightarrow> Num (min bound x) | NaN \<Rightarrow> NaN)"

definition js_max :: "rat \<Rightarrow> js_number \<Rightarrow> js_number" where
  "js_max bound v = (case v of Num x \<Rightarrow> Num (max bound x) | NaN \<Rightarrow> NaN)"

definition applyLearnedBoosts ::
  "SearchResult list \<Rightarrow> InboxLearningMetrics option \<Rightarrow> SearchResult list" where
  "applyLearnedBoosts results metrics =
     (case metrics of
        None \<Rightarrow> results
      | Some m \<Rightarrow>
          if totalFeedback m < 10 then results
          else if confidenceLevel m < 50 then results
          else map (\<lambda>result.
                 let adjustedScore = Number (sr_matchScore result);
                     authorityBoost = boostFor (authorityBoosts m) (authority (contract result));
                     adjustedScore = addBoost adjustedScore authorityBoost;
                     classBoost =
                       boostFor (classificationBoosts m) (buyerClassification (contract result));
                     adjustedScore = addBoost adjustedScore classBoost;
                     adjustedScore = js_max 0 (js_min 100 (js_round adjustedScore))
                 in result\<lparr>sr_matchScore := adjustedScore\<rparr>) results)"

text \<open>
  \<open>applyLearning\<close> runs the boost stage, then the threshold stage on its results, and
  sorts what is left by descending score. The two stages are the subject here.
\<close>

definition shouldApplyLearning :: "InboxLearningMetrics option \<Rightarrow> bool" where
  "shouldApplyLearning metrics =
     (case metrics of
        None \<Rightarrow> False
      | Some m \<Rightarrow> totalFeedback m \<ge> 5 \<and> confidenceLevel m \<ge> 30)"

text \<open>
  The results the boost stage is shown to leave alone: a score that is a whole number
  from 0 to 100 (or is \<open>NaN\<close> already), and an authority and a buyer classification
  that name no member of \<open>Object.prototype\<close>.
\<close>

definition wholeScoreInRange :: "js_number \<Rightarrow> bool" where
  "wholeScoreInRange v =
     (case v of Num x \<Rightarrow> x = of_int \<lfloor>x\<rfloor> \<and> 0 \<le> x \<and> x \<le> 100 | NaN \<Rightarrow> True)"

definition plainNames :: "SearchResult \<Rightarrow> bool" where
  "plainNames r =
     (authority (contract r) \<notin> set objectPrototypeMembers \<and>
      buyerClassification (contract r) \<notin> set objectPrototypeMembers)"

section \<open>The Collection Store (lib/inbox-storage.ts)\<close>

type_synonym inbox_db = "error + Inbox list"

text \<open>
  \<open>updateInbox(id, updates)\<close>: the partial record \<open>updates\<close> is the function that
  overwrites the fields it names (\<open>{...inbox, ...updates}\<close>); \<open>now\<close> is the clock
  reading for \<open>updatedAt\<close>. Every failure is caught and answered with \<open>undefined\<close>.
\<close>

definition updateInbox ::
  "inbox_db \<Rightarrow> string \<Rightarrow> (Inbox \<Rightarrow> Inbox) \<Rightarrow> string \<Rightarrow> Inbox option \<times> inbox_db" where
  "updateInbox db ident updates now =
     (case db of
        Inl e \<Rightarrow> (None, db)
      | Inr rows \<Rightarrow>
          (case idb_get inbox_id rows ident of
             None \<Rightarrow> (None, db)
           | Some inbox \<Rightarrow>
               let updated = (updates inbox)\<lparr>updatedAt := now\<rparr>
               in (Some updated, Inr (idb_put inbox_id rows updated))))"

definition getInboxById :: "inbox_db \<Rightarrow> string \<Rightarrow> Inbox option" where
  "getInboxById db ident =
     (case db of Inl e \<Rightarrow> None | Inr rows \<Rightarrow> idb_get inbox_id rows ident)"

section \<open>Recomputing a collection's policy (lib/learning.ts)\<close>

text \<open>
  The readings of the clock and of the identifier generator that one user action
  makes, one field per reading.
\<close>

record Readings =
  newFeedbackId :: string
  feedbackAt :: string
  adjustmentAt :: string
  metricsAt :: string
  inboxUpdatedAt :: string
  hiddenAt :: string

text \<open>
  \<open>updateInboxLearning(inboxId)\<close>: analyse, then write the metrics to the inbox; an
  error of the analyzer is rethrown before anything is written.
\<close>

definition updateInboxLearning ::
  "feedback_db \<Rightarrow> inbox_db \<Rightarrow> string \<Rightarrow> Readings
     \<Rightarrow> (error + InboxLearningMetrics) \<times> inbox_db" where
  "updateInboxLearning fdb idb inboxId clk =
     (case analyzeFeedbackPatterns fdb inboxId (adjustmentAt clk) (metricsAt clk) of
        Inl e \<Rightarrow> (Inl e, idb)
      | Inr metrics \<Rightarrow>
          (Inr metrics,
           snd (updateInbox idb inboxId (\<lambda>i. i\<lparr>learningMetrics := Some metrics\<rparr>)
                  (inboxUpdatedAt clk))))"

section \<open>The Item State Store (lib/contract-storage.ts)\<close>

type_synonym contract_db = "error + Contract list"

text \<open>\<open>getContractById\<close>: the raw row; a failure is answered with \<open>undefined\<close>.\<close>

definition getContractById :: "contract_db \<Rightarrow> string \<Rightarrow> Contract option" where
  "getContractById db ident =
     (case db of Inl e \<Rightarrow> None | Inr rows \<Rightarrow> idb_get c_id rows ident)"

definition updateContract ::
  "contract_db \<Rightarrow> string \<Rightarrow> (Contract \<Rightarrow> Contract) \<Rightarrow> Contract option \<times> contract_db" where
  "updateContract db ident updates =
     (case db of
        Inl e \<Rightarrow> (None, db)
      | Inr rows \<Rightarrow>
          (case idb_get c_id rows ident of
             None \<Rightarrow> (None, db)
           | Some contract' \<Rightarrow>
               let updated = updates contract'
               in (Some updated, Inr (idb_put c_id rows updated))))"

definition markContractAsSaved :: "contract_db \<Rightarrow> string \<Rightarrow> contract_db" where
  "markContractAsSaved db ident = snd (updateContract db ident (\<lambda>c. c\<lparr>isSaved := True\<rparr>))"

definition markContractAsRead :: "contract_db \<Rightarrow> string \<Rightarrow> contract_db" where
  "markContractAsRead db ident =
     snd (updateContract db ident (\<lambda>c. c\<lparr>isUnread := False, isNew := False\<rparr>))"

text \<open>
  \<open>contract.hiddenInInboxes || []\<close> and \<open>contract.hiddenMetadata || {}\<close>: a legacy row
  may lack either field.
\<close>

definition hiddenInboxesOf :: "Contract \<Rightarrow> string list" where
  "hiddenInboxesOf c = (case hiddenInInboxes c of None \<Rightarrow> [] | Some xs \<Rightarrow> xs)"

definition hiddenMetadataOf :: "Contract \<Rightarrow> (string \<rightharpoonup> HiddenMeta)" where
  "hiddenMetadataOf c = (case hiddenMetadata c of None \<Rightarrow> Map.empty | Some m \<Rightarrow> m)"

text \<open>\<open>markContractAsHidden(id, inboxId, reason)\<close>; \<open>now\<close> is the clock reading.\<close>

definition markContractAsHidden ::
  "contract_db \<Rightarrow> string \<Rightarrow> string \<Rightarrow> string option \<Rightarrow> string \<Rightarrow> contract_db" where
  "markContractAsHidden db ident inboxId reason' now =
     (case getContractById db ident of
        None \<Rightarrow> db
      | Some contract' \<Rightarrow>
          let hiddenInInboxes' = hiddenInboxesOf contract';
              hiddenInInboxes' =
                (if inboxId \<notin> set hiddenInInboxes' then hiddenInInboxes' @ [inboxId]
                 else hiddenInInboxes');
              hiddenMetadata' =
                (hiddenMetadataOf contract')
                  (inboxId \<mapsto> \<lparr>hiddenBy = None, hiddenDate = now, hiddenReason = reason'\<rparr>)
          in snd (updateContract db ident
                    (\<lambda>c. c\<lparr>hiddenInInboxes := Some hiddenInInboxes',
                            hiddenMetadata := Some hiddenMetadata'\<rparr>)))"

section \<open>User actions (the contract storage hook and the page's handlers)\<close>

text \<open>
  The three databases, and the part of the page's state the handlers read: the
  active inbox, the hook's list of all contracts and the contracts of the current
  search results. The handlers' updates of the page's own state and their toasts are
  not modelled; what a handler does to the databases is.
\<close>

record Stores =
  contractDB :: contract_db
  feedbackDB :: feedback_db
  inboxDB :: inbox_db

record PageState =
  activeInbox :: "Inbox option"
  allContracts :: "Contract list"
  searchResults :: "Contract list"

record FeedbackContext =
  ctx_inboxId :: "string option"
  ctx_matchScore :: "int option"

text \<open>
  The learning step both \<open>saveContract\<close> and \<open>hideContract\<close> end with:
  \<open>recordFeedback\<close>, then \<open>updateInboxLearning\<close>; an error of either leaves the
  \<open>try\<close> block (the handler only reports it). A string is truthy when it is not
  empty.
\<close>

definition recordAndLearn ::
  "Stores \<Rightarrow> string \<Rightarrow> string \<Rightarrow> action \<Rightarrow> int \<Rightarrow> string option \<Rightarrow> Readings \<Rightarrow> Stores" where
  "recordAndLearn st inboxId contractId act score reason' clk =
     (case recordFeedback (feedbackDB st) (newFeedbackId clk) (feedbackAt clk) inboxId contractId
             act score reason' None of
        (Inl e, fdb) \<Rightarrow> st
      | (Inr feedback, fdb) \<Rightarrow>
          st\<lparr>feedbackDB := fdb,
             inboxDB := snd (updateInboxLearning fdb (inboxDB st) inboxId clk)\<rparr>)"

definition saveContract :: "Stores \<Rightarrow> string \<Rightarrow> FeedbackContext option \<Rightarrow> Readings \<Rightarrow> Stores" where
  "saveContract st ident ctx clk =
     (let st = st\<lparr>contractDB := markContractAsSaved (contractDB st) ident\<rparr>
      in case ctx of
           None \<Rightarrow> st
         | Some c \<Rightarrow>
             (case (ctx_inboxId c, ctx_matchScore c) of
                (Some inboxId, Some score) \<Rightarrow>
                  if inboxId \<noteq> [] then recordAndLearn st inboxId ident Saved score None clk
                  else st
              | _ \<Rightarrow> st))"

definition hideContract ::
  "Stores \<Rightarrow> string \<Rightarrow> string option \<Rightarrow> FeedbackContext option \<Rightarrow> Readings \<Rightarrow> Stores" where
  "hideContract st ident reason' ctx clk =
     (case ctx of
        None \<Rightarrow> st
      | Some c \<Rightarrow>
          (case ctx_inboxId c of
             None \<Rightarrow> st
           | Some inboxId \<Rightarrow>
               if inboxId = [] then st
               else
                 let st = st\<lparr>contractDB :=
                            markContractAsHidden (contractDB st) ident inboxId reason' (hiddenAt clk)\<rparr>
                 in (case ctx_matchScore c of
                       None \<Rightarrow> st
                     | Some score \<Rightarrow> recordAndLearn st inboxId ident Hidden score reason' clk)))"

text \<open>\<open>markAsRead\<close> records a view and recomputes nothing.\<close>

definition markAsRead :: "Stores \<Rightarrow> string \<Rightarrow> FeedbackContext option \<Rightarrow> Readings \<Rightarrow> Stores" where
  "markAsRead st ident ctx clk =
     (let st = st\<lparr>contractDB := markContractAsRead (contractDB st) ident\<rparr>
      in case ctx of
           None \<Rightarrow> st
         | Some c \<Rightarrow>
             (case (ctx_inboxId c, ctx_matchScore c) of
                (Some inboxId, Some score) \<Rightarrow>
                  if inboxId \<noteq> [] then
                    st\<lparr>feedbackDB :=
                         snd (recordFeedback (feedbackDB st) (newFeedbackId clk) (feedbackAt clk)
                                inboxId ident Viewed score None None)\<rparr>
                  else st
              | _ \<Rightarrow> st))"

text \<open>
  The page: the contracts on display. The "all contracts" inbox bypasses the search
  and shows every contract at score 100.
\<close>

definition baseContracts :: "PageState \<Rightarrow> Contract list" where
  "baseContracts ui =
     (case activeInbox ui of
        None \<Rightarrow> []
      | Some a \<Rightarrow>
          if isAllContractsInbox a = Some True
          then map (\<lambda>c. c\<lparr>c_matchScore := Some 100\<rparr>) (allContracts ui)
          else if length (searchResults ui) > 0 then searchResults ui
          else [])"

definition inboxContext :: "PageState \<Rightarrow> Contract option \<Rightarrow> FeedbackContext option" where
  "inboxContext ui c =
     (case (activeInbox ui, c) of
        (Some a, Some c') \<Rightarrow>
          (case c_matchScore c' of
             None \<Rightarrow> None
           | Some score \<Rightarrow> Some \<lparr>ctx_inboxId = Some (inbox_id a), ctx_matchScore = Some score\<rparr>)
      | _ \<Rightarrow> None)"

definition handleSelectContract :: "PageState \<Rightarrow> Stores \<Rightarrow> string \<Rightarrow> Readings \<Rightarrow> Stores" where
  "handleSelectContract ui st contractId clk =
     (let c = find (\<lambda>c. c_id c = contractId) (baseContracts ui)
      in markAsRead st contractId (inboxContext ui c) clk)"

definition handleSaveContract :: "PageState \<Rightarrow> Stores \<Rightarrow> string \<Rightarrow> Readings \<Rightarrow> Stores" where
  "handleSaveContract ui st contractId clk =
     (let c = find (\<lambda>c. c_id c = contractId) (baseContracts ui);
          wasSaved = (case c of None \<Rightarrow> False | Some c' \<Rightarrow> isSaved c');
          ctx = (if \<not> wasSaved then inboxContext ui c else None)
      in saveContract st contractId ctx clk)"

text \<open>\<open>feedback?.join(", ")\<close>.\<close>

fun joinReasons :: "string list \<Rightarrow> string" where
  "joinReasons [] = []"
| "joinReasons [x] = x"
| "joinReasons (x # y # ys) = x @ '', '' @ joinReasons (y # ys)"

definition handleHideContract ::
  "PageState \<Rightarrow> Stores \<Rightarrow> string \<Rightarrow> string list option \<Rightarrow> Readings \<Rightarrow> Stores" where
  "handleHideContract ui st contractId feedback clk =
     (let c = find (\<lambda>c. c_id c = contractId) (baseContracts ui);
          reason' = map_option joinReasons feedback
      in hideContract st contractId reason' (inboxContext ui c) clk)"

text \<open>
  \<open>handleGlobalThresholdChange(newThreshold)\<close>, the explicit override of the live
  cutoff: it writes \<open>newThreshold\<close> into \<open>dynamicMinScore\<close> of the active inbox's
  metrics, every other field kept or defaulted. It does nothing for the "all
  contracts" inbox or an inbox without a prompt.
\<close>

definition overrideMetrics :: "Inbox \<Rightarrow> int \<Rightarrow> Readings \<Rightarrow> InboxLearningMetrics" where
  "overrideMetrics a newThreshold clk =
     (let lm = learningMetrics a
      in \<lparr>lm_inboxId = inbox_id a,
          minRelevanceScore = (case lm of None \<Rightarrow> 0 | Some m \<Rightarrow> minRelevanceScore m),
          maxIrrelevanceScore = (case lm of None \<Rightarrow> 100 | Some m \<Rightarrow> maxIrrelevanceScore m),
          dynamicMinScore = newThreshold,
          thresholdAdjustments =
            \<lparr>expandedCount = (case lm of None \<Rightarrow> 0
                               | Some m \<Rightarrow> expandedCount (thresholdAdjustments m)),
             narrowedCount = (case lm of None \<Rightarrow> 0
                               | Some m \<Rightarrow> narrowedCount (thresholdAdjustments m)),
             lastAdjustment = adjustmentAt clk\<rparr>,
          promptRefinements = (case lm of None \<Rightarrow> [] | Some m \<Rightarrow> promptRefinements m),
          pendingPromptUpdate = (case lm of None \<Rightarrow> False | Some m \<Rightarrow> pendingPromptUpdate m),
          totalFeedback = (case lm of None \<Rightarrow> 0 | Some m \<Rightarrow> totalFeedback m),
          savedContracts = (case lm of None \<Rightarrow> 0 | Some m \<Rightarrow> savedContracts m),
          hiddenContracts = (case lm of None \<Rightarrow> 0 | Some m \<Rightarrow> hiddenContracts m),
          viewedContracts = (case lm of None \<Rightarrow> 0 | Some m \<Rightarrow> viewedContracts m),
          authorityBoosts = (case lm of None \<Rightarrow> [] | Some m \<Rightarrow> authorityBoosts m),
          classificationBoosts = (case lm of None \<Rightarrow> [] | Some m \<Rightarrow> classificationBoosts m),
          confidenceLevel = (case lm of None \<Rightarrow> 0 | Some m \<Rightarrow> confidenceLevel m),
          lastUpdated = metricsAt clk\<rparr>)"

definition handleGlobalThresholdChange :: "PageState \<Rightarrow> Stores \<Rightarrow> int \<Rightarrow> Readings \<Rightarrow> Stores" where
  "handleGlobalThresholdChange ui st newThreshold clk =
     (case activeInbox ui of
        None \<Rightarrow> st
      | Some a \<Rightarrow>
          if isAllContractsInbox a \<noteq> Some True \<and> prompt a \<noteq> []
          then st\<lparr>inboxDB :=
                    snd (updateInbox (inboxDB st) (inbox_id a)
                           (\<lambda>i. i\<lparr>learningMetrics := Some (overrideMetrics a newThreshold clk)\<rparr>)
                           (inboxUpdatedAt clk))\<rparr>
          else st)"

section \<open>The controller's rule set, as the specification words it\<close>

text \<open>
  The rules of the specification's section 4.2, for a ledger of at least 10 events:
  consider the most recent 20 events, split into saves and hides; the expand rule
  lowers the cutoff by 10, floored at 30; the narrow rule, evaluated after it, raises
  the cutoff by 10, capped at 70, and overwrites what the expand rule proposed. The
  hide rate exceeds 60% when 100 times the hides exceed 60 times the save and hide
  actions. \<open>statedRules\<close> is the outcome of these rules alone, before any clamp.
\<close>

definition mostRecent :: "nat \<Rightarrow> 'a list \<Rightarrow> 'a list" where
  "mostRecent n events = rev (take n (rev events))"

definition expandRuleFires :: "UserFeedback list \<Rightarrow> int \<Rightarrow> bool" where
  "expandRuleFires recent cutoff =
     (let saves = filter (\<lambda>e. action e = Saved) recent;
          near = filter (\<lambda>e. fb_matchScore e < cutoff + 10 \<and> 0 < fb_matchScore e) saves
      in 3 \<le> length near \<and> 5 \<le> length saves)"

definition narrowRuleFires :: "UserFeedback list \<Rightarrow> bool" where
  "narrowRuleFires recent =
     (let saves = length (filter (\<lambda>e. action e = Saved) recent);
          hides = length (filter (\<lambda>e. action e = Hidden) recent)
      in 100 * hides > 60 * (saves + hides) \<and> 10 \<le> saves + hides)"

definition statedRules :: "UserFeedback list \<Rightarrow> int \<Rightarrow> int" where
  "statedRules events cutoff =
     (let recent = mostRecent 20 events
      in if narrowRuleFires recent then min 70 (cutoff + 10)
         else if expandRuleFires recent cutoff then max 30 (cutoff - 10)
         else cutoff)"

section \<open>Reading a policy back\<close>

text \<open>
  The policy a recompute hands to the ranking pipeline (\<open>undefined\<close> when the
  recompute failed), and the policy cached on an inbox of the store.
\<close>

definition policyOf :: "error + InboxLearningMetrics \<Rightarrow> InboxLearningMetrics option" where
  "policyOf r = (case r of Inl e \<Rightarrow> None | Inr m \<Rightarrow> Some m)"

definition cachedPolicyOf :: "inbox_db \<Rightarrow> string \<Rightarrow> InboxLearningMetrics option" where
  "cachedPolicyOf db inboxId =
     (case getInboxById db inboxId of None \<Rightarrow> None | Some inbox \<Rightarrow> learningMetrics inbox)"

section \<open>Example data\<close>

definition exampleEvent :: "string \<Rightarrow> action \<Rightarrow> int \<Rightarrow> UserFeedback" where
  "exampleEvent ident act score =
     \<lparr>fb_id = ident, fb_inboxId = ''inbox-1'', fb_contractId = ''contract-1'', action = act,
      fb_matchScore = score, fb_timestamp = ''2025-01-01T00:00:00.000Z'',
      hideReason = None, viewDuration = None\<rparr>"

text \<open>Scenario B of the specification: 15 saves and 5 hides.\<close>

definition scenarioB :: "UserFeedback list" where
  "scenarioB =
     [exampleEvent ''f01'' Saved 40, exampleEvent ''f02'' Saved 45, exampleEvent ''f03'' Saved 50,
      exampleEvent ''f04'' Saved 55, exampleEvent ''f05'' Saved 60, exampleEvent ''f06'' Saved 65,
      exampleEvent ''f07'' Saved 70, exampleEvent ''f08'' Saved 75, exampleEvent ''f09'' Saved 80,
      exampleEvent ''f10'' Saved 85, exampleEvent ''f11'' Saved 90, exampleEvent ''f12'' Saved 95,
      exampleEvent ''f13'' Saved 98, exampleEvent ''f14'' Saved 99, exampleEvent ''f15'' Saved 100,
      exampleEvent ''f16'' Hidden 72, exampleEvent ''f17'' Hidden 75, exampleEvent ''f18'' Hidden 80,
      exampleEvent ''f19'' Hidden 85, exampleEvent ''f20'' Hidden 90]"

text \<open>
  A ledger on which both rules fire at cutoff 50: five saves at score 55 and eight
  hides (hide rate 8/13).
\<close>

definition bothRulesLedger :: "UserFeedback list" where
  "bothRulesLedger =
     [exampleEvent ''g01'' Saved 55, exampleEvent ''g02'' Saved 55, exampleEvent ''g03'' Saved 55,
      exampleEvent ''g04'' Saved 55, exampleEvent ''g05'' Saved 55, exampleEvent ''g06'' Hidden 60,
      exampleEvent ''g07'' Hidden 60, exampleEvent ''g08'' Hidden 60, exampleEvent ''g09'' Hidden 60,
      exampleEvent ''g10'' Hidden 60, exampleEvent ''g11'' Hidden 60, exampleEvent ''g12'' Hidden 60,
      exampleEvent ''g13'' Hidden 60]"



text \<open>Ten saves at score 55, and ten hides.\<close>

definition tenSaves :: "UserFeedback list" where
  "tenSaves =
     [exampleEvent ''k01'' Saved 55, exampleEvent ''k02'' Saved 55, exampleEvent ''k03'' Saved 55,
      exampleEvent ''k04'' Saved 55, exampleEvent ''k05'' Saved 55, exampleEvent ''k06'' Saved 55,
      exampleEvent ''k07'' Saved 55, exampleEvent ''k08'' Saved 55, exampleEvent ''k09'' Saved 55,
      exampleEvent ''k10'' Saved 55]"

definition tenHides :: "UserFeedback list" where
  "tenHides =
     [exampleEvent ''n01'' Hidden 60, exampleEvent ''n02'' Hidden 60, exampleEvent ''n03'' Hidden 60,
      exampleEvent ''n04'' Hidden 60, exampleEvent ''n05'' Hidden 60, exampleEvent ''n06'' Hidden 60,
      exampleEvent ''n07'' Hidden 60, exampleEvent ''n08'' Hidden 60, exampleEvent ''n09'' Hidden 60,
      exampleEvent ''n10'' Hidden 60]"

definition exampleContract :: Contract where
  "exampleContract =
     \<lparr>c_id = ''contract-1'', title = ''Network refresh'', description = ''Switches and routers'',
      authority = ''NHS Surrey'', c_value = None, closeDate = ''2025-03-01'',
      publishDate = ''2025-01-01'', url = ''https://example.org/1'',
      buyerClassification = ''Central'', c_embedding = None, isNew = True, isSaved = False,
      isUnread = True, hiddenInInboxes = Some [], hiddenMetadata = None, c_matchScore = None,
      snippet = None, deadline = None, c_explanation = None\<rparr>"

text \<open>
  A search result for a contract whose buyer is named \<open>auth\<close> and classified \<open>cls\<close>,
  and one for the example contract.
\<close>

definition resultFrom :: "string \<Rightarrow> string \<Rightarrow> js_number \<Rightarrow> SearchResult" where
  "resultFrom auth cls score =
     \<lparr>contract = exampleContract\<lparr>authority := auth, buyerClassification := cls\<rparr>,
      sr_matchScore = score, sr_explanation = None\<rparr>"

definition exampleResult :: "rat \<Rightarrow> SearchResult" where
  "exampleResult score = resultFrom ''NHS Surrey'' ''Central'' (Num score)"

definition regularInbox :: Inbox where
  "regularInbox =
     \<lparr>inbox_id = ''inbox-1'', name = ''NHS IT'', prompt = ''IT services for NHS trusts'',
      inbox_embedding = None, createdAt = ''2025-01-01T00:00:00.000Z'',
      updatedAt = ''2025-01-01T00:00:00.000Z'', unreadCount = 0,
      isAllContractsInbox = Some False, filters = None, learningMetrics = None\<rparr>"

definition allContractsInbox :: Inbox where
  "allContractsInbox =
     \<lparr>inbox_id = ''inbox-0'', name = ''All Contracts'',
      prompt = ''Show me all relevant public sector contracts'',
      inbox_embedding = None, createdAt = ''2025-01-01T00:00:00.000Z'',
      updatedAt = ''2025-01-01T00:00:00.000Z'', unreadCount = 0,
      isAllContractsInbox = Some True, filters = None, learningMetrics = None\<rparr>"

definition exampleReadings :: Readings where
  "exampleReadings =
     \<lparr>newFeedbackId = ''feedback-1735776000000-abc1234'',
      feedbackAt = ''2025-01-02T00:00:00.000Z'', adjustmentAt = ''2025-01-02T00:00:00.001Z'',
      metricsAt = ''2025-01-02T00:00:00.002Z'', inboxUpdatedAt = ''2025-01-02T00:00:00.003Z'',
      hiddenAt = ''2025-01-02T00:00:00.000Z''\<rparr>"

text \<open>The policy the analyzer derives from Scenario B, as cached on an inbox.\<close>

definition learnedPolicy :: InboxLearningMetrics where
  "learnedPolicy =
     \<lparr>lm_inboxId = ''inbox-1'', minRelevanceScore = 30, maxIrrelevanceScore = 95,
      dynamicMinScore = 40,
      thresholdAdjustments =
        \<lparr>expandedCount = 1, narrowedCount = 0, lastAdjustment = ''2025-01-01T12:00:00.000Z''\<rparr>,
      promptRefinements = [], pendingPromptUpdate = False, totalFeedback = 20,
      savedContracts = 15, hiddenContracts = 5, viewedContracts = 0, authorityBoosts = [],
      classificationBoosts = [], confidenceLevel = 100,
      lastUpdated = ''2025-01-01T12:00:00.000Z''\<rparr>"

definition inboxWithPolicy :: Inbox where
  "inboxWithPolicy = regularInbox\<lparr>learningMetrics := Some learnedPolicy\<rparr>"

text \<open>
  A store with the "all contracts" inbox, one regular inbox, one contract and no
  feedback; the page with the regular inbox active and the contract found at score
  80; the page with the "all contracts" inbox active.
\<close>

definition exampleStores :: Stores where
  "exampleStores =
     \<lparr>contractDB = Inr [exampleContract], feedbackDB = Inr [],
      inboxDB = Inr [allContractsInbox, regularInbox]\<rparr>"

definition regularPage :: PageState where
  "regularPage =
     \<lparr>activeInbox = Some regularInbox, allContracts = [exampleContract],
      searchResults = [exampleContract\<lparr>c_matchScore := Some 80\<rparr>]\<rparr>"

definition allContractsPage :: PageState where
  "allContractsPage =
     \<lparr>activeInbox = Some allContractsInbox, allContracts = [exampleContract],
      searchResults = []\<rparr>"

text \<open>
  The user sets the live cutoff of the regular inbox to 70, the page reloads the
  inbox, and the user saves the contract.
\<close>

definition afterOverride :: Stores where
  "afterOverride = handleGlobalThresholdChange regularPage exampleStores 70 exampleReadings"

definition afterOverrideAndSave :: Stores where
  "afterOverrideAndSave =
     handleSaveContract
       (regularPage\<lparr>activeInbox := getInboxById (inboxDB afterOverride) ''inbox-1''\<rparr>)
       afterOverride ''contract-1'' exampleReadings"

text \<open>The user saves, or hides, the contract while the "all contracts" inbox is active.\<close>

definition afterSaveInAllContracts :: Stores where
  "afterSaveInAllContracts =
     handleSaveContract allContractsPage exampleStores ''contract-1'' exampleReadings"

definition afterHideInAllContracts :: Stores where
  "afterHideInAllContracts =
     handleHideContract allContractsPage exampleStores ''contract-1'' (Some [''Not relevant''])
       exampleReadings"

section \<open>Helper lemmas\<close>

lemma Math_round_of_int: "Math_round (of_int n) = n"
  by (simp add: Math_round_def) linarith

lemma mostRecent_drop: "mostRecent n xs = drop (length xs - n) xs"
  by (simp add: mostRecent_def take_rev)

lemma hideRate_iff:
  "10 \<le> s + h \<Longrightarrow> ((of_nat h / of_nat (s + h) :: rat) > 6 / 10) = (100 * h > 60 * (s + h))"
proof -
  assume a: "10 \<le> s + h"
  then have pos: "(0::rat) < of_nat (s + h)" by simp
  have "((6 / 10 :: rat) < of_nat h / of_nat (s + h)) = ((6 / 10) * of_nat (s + h) < (of_nat h :: rat))"
    using pos by (simp add: pos_less_divide_eq)
  also have "\<dots> = ((of_nat (60 * (s + h)) :: rat) < of_nat (100 * h))"
    by (simp add: field_simps)
  also have "\<dots> = (60 * (s + h) < 100 * h)"
    by (simp only: of_nat_less_iff)
  finally show ?thesis .
qed

lemma narrow_condition:
  "((of_nat h / of_nat (s + h) :: rat) > 6 / 10 \<and> 10 \<le> s + h) =
     (100 * h > 60 * (s + h) \<and> 10 \<le> s + h)"
  using hideRate_iff [of s h] by blast

lemma controller_threshold:
  assumes "10 \<le> length events"
  shows "threshold (calculateDynamicThreshold events cutoff) =
     (let recent = drop (length events - 20) events in
      max 30 (min 70 (if narrowRuleFires recent then min 70 (cutoff + 10)
             else if expandRuleFires recent cutoff then max 30 (cutoff - 10)
             else cutoff)))"
proof -
  have not_few: "(length events < 10) = False" using assms by simp
  show ?thesis
    unfolding calculateDynamicThreshold_def not_few narrowRuleFires_def expandRuleFires_def Let_def
    by (simp only: if_False narrow_condition ThresholdResult.simps fst_conv if_distrib [of fst])
qed

lemma threshold_in_range:
  "10 \<le> length events \<Longrightarrow>
     30 \<le> threshold (calculateDynamicThreshold events cutoff) \<and>
     threshold (calculateDynamicThreshold events cutoff) \<le> 70"
  by (simp add: calculateDynamicThreshold_def Let_def)

lemma exampleEvent_simps [simp]:
  "action (exampleEvent i a s) = a" "fb_matchScore (exampleEvent i a s) = s"
  "fb_inboxId (exampleEvent i a s) = ''inbox-1''" "fb_id (exampleEvent i a s) = i"
  by (simp_all add: exampleEvent_def)

lemma fold_min_Min: "fold min ss (s::int) = Min (set (s # ss))"
  by (simp only: Min.set_eq_fold)

lemma fold_max_Max: "fold max hs (h::int) = Max (set (h # hs))"
  by (simp only: Max.set_eq_fold)

lemma ramp_int: "(of_nat n / 20 * 100 :: rat) = of_int (5 * int n)"
  by simp

lemma confidence_ramp: "Math_round (min 100 (of_nat n / 20 * 100)) = min 100 (5 * int n)"
proof -
  have "min 100 (of_nat n / 20 * 100 :: rat) = of_int (min 100 (5 * int n))"
    unfolding ramp_int by (simp only: of_int_min of_int_numeral)
  then show ?thesis by (simp only: Math_round_of_int)
qed

lemma band_min_case:
  "(case xs of [] \<Rightarrow> 0 | s # ss \<Rightarrow> max 0 (fold min ss s - 10)) =
     (if xs = [] then 0 else max 0 (Min (set xs) - (10::int)))"
  by (cases xs) (simp_all only: list.case fold_min_Min list.distinct if_True if_False refl)

lemma band_max_case:
  "(case xs of [] \<Rightarrow> 100 | h # hs \<Rightarrow> min 100 (fold max hs h + 5)) =
     (if xs = [] then 100 else min 100 (Max (set xs) + (5::int)))"
  by (cases xs) (simp_all only: list.case fold_max_Max list.distinct if_True if_False refl)

lemma analyze_empty:
  assumes "getFeedbackForInbox db i = []"
  shows "analyzeFeedbackPatterns db i t1 t2 =
    Inr \<lparr>lm_inboxId = i, minRelevanceScore = 0, maxIrrelevanceScore = 100, dynamicMinScore = 30,
         thresholdAdjustments = \<lparr>expandedCount = 0, narrowedCount = 0, lastAdjustment = t1\<rparr>,
         promptRefinements = [], pendingPromptUpdate = False, totalFeedback = 0,
         savedContracts = 0, hiddenContracts = 0, viewedContracts = 0,
         authorityBoosts = [], classificationBoosts = [], confidenceLevel = 0, lastUpdated = t2\<rparr>"
  unfolding analyzeFeedbackPatterns_def Let_def assms
  by (simp only: list.size if_True simp_thms)

lemma analyze_nonempty:
  assumes "getFeedbackForInbox db i \<noteq> []"
  shows "analyzeFeedbackPatterns db i t1 t2 =
    (let fb = getFeedbackForInbox db i;
         savedScores = map fb_matchScore (filter (\<lambda>f. action f = Saved) fb);
         hiddenScores = map fb_matchScore (filter (\<lambda>f. action f = Hidden) fb);
         dyn = threshold (calculateDynamicThreshold fb 50)
     in Inr \<lparr>lm_inboxId = i,
         minRelevanceScore = (if savedScores = [] then 0 else max 0 (Min (set savedScores) - 10)),
         maxIrrelevanceScore = (if hiddenScores = [] then 100 else min 100 (Max (set hiddenScores) + 5)),
         dynamicMinScore = dyn,
         thresholdAdjustments = \<lparr>expandedCount = (if dyn < 50 then 1 else 0),
            narrowedCount = (if dyn > 50 then 1 else 0), lastAdjustment = t1\<rparr>,
         promptRefinements = [], pendingPromptUpdate = False, totalFeedback = length fb,
         savedContracts = length (filter (\<lambda>f. action f = Saved) fb),
         hiddenContracts = length (filter (\<lambda>f. action f = Hidden) fb),
         viewedContracts = length (filter (\<lambda>f. action f = Viewed) fb),
         authorityBoosts = [], classificationBoosts = [],
         confidenceLevel = min 100 (5 * int (length fb)), lastUpdated = t2\<rparr>)"
proof -
  have ne: "(length (getFeedbackForInbox db i) = 0) = False" using assms by simp
  show ?thesis
    unfolding analyzeFeedbackPatterns_def Let_def ne
    by (simp only: if_False band_min_case band_max_case Math_round_of_int confidence_ramp)
qed

lemma analyze_fields:
  fixes db i t1 t2
  defines "fb \<equiv> getFeedbackForInbox db i"
  defines "savedScores \<equiv> map fb_matchScore (filter (\<lambda>f. action f = Saved) fb)"
  defines "hiddenScores \<equiv> map fb_matchScore (filter (\<lambda>f. action f = Hidden) fb)"
  obtains m where "analyzeFeedbackPatterns db i t1 t2 = Inr m"
    and "minRelevanceScore m = (if savedScores = [] then 0 else max 0 (Min (set savedScores) - 10))"
    and "maxIrrelevanceScore m = (if hiddenScores = [] then 100 else min 100 (Max (set hiddenScores) + 5))"
    and "confidenceLevel m = min 100 (5 * int (length fb))"
    and "dynamicMinScore m = (if fb = [] then 30 else threshold (calculateDynamicThreshold fb 50))"
    and "authorityBoosts m = []" and "classificationBoosts m = []"
    and "totalFeedback m = length fb"
    and "lastUpdated m = t2" and "lastAdjustment (thresholdAdjustments m) = t1"
proof (cases "getFeedbackForInbox db i = []")
  case True
  show ?thesis
    by (rule that [OF analyze_empty [OF True]]) (simp_all add: fb_def savedScores_def hiddenScores_def True)
next
  case False
  show ?thesis
    by (rule that [OF analyze_nonempty [OF False, unfolded Let_def]])
       (simp_all add: fb_def savedScores_def hiddenScores_def False)
qed

lemma scenarioB_ledger:
  "getFeedbackForInbox (Inr scenarioB) ''inbox-1'' = scenarioB"
  by (simp add: getFeedbackForInbox_def scenarioB_def)

lemma scenarioB_scores:
  "length scenarioB = 20"
  "map fb_matchScore (filter (\<lambda>f. action f = Saved) scenarioB) =
     [40, 45, 50, 55, 60, 65, 70, 75, 80, 85, 90, 95, 98, 99, 100]"
  "map fb_matchScore (filter (\<lambda>f. action f = Hidden) scenarioB) = [72, 75, 80, 85, 90]"
  by (simp_all add: scenarioB_def)



lemma find_replace_other:
  "k \<noteq> keyPath x \<Longrightarrow>
     find (\<lambda>r. keyPath r = k) (map (\<lambda>r. if keyPath r = keyPath x then x else r) rows) =
     find (\<lambda>r. keyPath r = k) rows"
  by (induction rows) auto

lemma find_replace_same:
  "keyPath x \<in> set (map keyPath rows) \<Longrightarrow>
     find (\<lambda>r. keyPath r = keyPath x) (map (\<lambda>r. if keyPath r = keyPath x then x else r) rows) =
     Some x"
  by (induction rows) auto

lemma find_snoc:
  "find P (rows @ [x]) =
     (case find P rows of Some r \<Rightarrow> Some r | None \<Rightarrow> if P x then Some x else None)"
  by (induction rows) auto

lemma find_absent:
  "keyPath x \<notin> set (map keyPath rows) \<Longrightarrow> find (\<lambda>r. keyPath r = keyPath x) rows = None"
  by (induction rows) auto

lemma idb_get_put:
  "idb_get keyPath (idb_put keyPath rows x) k =
     (if k = keyPath x then Some x else idb_get keyPath rows k)"
proof (cases "keyPath x \<in> set (map keyPath rows)")
  case True
  then show ?thesis
    by (simp add: idb_get_def idb_put_def find_replace_other find_replace_same del: set_map)
next
  case False
  then show ?thesis
    by (auto simp: idb_get_def idb_put_def find_snoc find_absent simp del: set_map split: option.splits)
qed

lemma idb_get_key: "idb_get keyPath rows k = Some r \<Longrightarrow> keyPath r = k"
  by (auto simp: idb_get_def find_Some_iff)

lemma getContractById_updateContract:
  assumes "getContractById db ident = Some c" "c_id (updates c) = ident"
  shows "getContractById (snd (updateContract db ident updates)) k =
           (if k = ident then Some (updates c) else getContractById db k)"
  using assms
  by (cases db) (simp_all add: getContractById_def updateContract_def Let_def idb_get_put)

lemma updateContract_missing:
  "getContractById db ident = None \<Longrightarrow> snd (updateContract db ident updates) = db"
  by (cases db) (simp_all add: getContractById_def updateContract_def)

lemma failed_read_is_empty_ledger:
  "analyzeFeedbackPatterns (Inl e) inboxId t1 t2 = analyzeFeedbackPatterns (Inr []) inboxId t1 t2"
  by (simp add: analyzeFeedbackPatterns_def getFeedbackForInbox_def)

lemma analyzer_raises_nothing_written:
  "analyzeFeedbackPatterns fdb inboxId (adjustmentAt clk) (metricsAt clk) = Inl e \<Longrightarrow>
     updateInboxLearning fdb idb inboxId clk = (Inl e, idb)"
  by (simp add: updateInboxLearning_def)

lemma getInboxById_updateInbox:
  assumes "getInboxById db ident = Some inbox" "inbox_id (updates inbox) = ident"
  shows "getInboxById (snd (updateInbox db ident updates now)) k =
           (if k = ident then Some ((updates inbox)\<lparr>updatedAt := now\<rparr>) else getInboxById db k)"
  using assms
  by (cases db) (simp_all add: getInboxById_def updateInbox_def Let_def idb_get_put)

lemma getInboxById_key: "getInboxById db ident = Some inbox \<Longrightarrow> inbox_id inbox = ident"
  by (cases db) (auto simp: getInboxById_def dest: idb_get_key)

lemma recompute_overwrites_cached_policy:
  assumes "getInboxById idb inboxId = Some inbox"
  shows "cachedPolicyOf (snd (updateInboxLearning fdb idb inboxId clk)) inboxId =
           policyOf (analyzeFeedbackPatterns fdb inboxId (adjustmentAt clk) (metricsAt clk))"
proof -
  obtain m where m: "analyzeFeedbackPatterns fdb inboxId (adjustmentAt clk) (metricsAt clk) = Inr m"
    by (rule analyze_fields)
  have "inbox_id (inbox\<lparr>learningMetrics := Some m\<rparr>) = inboxId"
    using getInboxById_key [OF assms] by simp
  from getInboxById_updateInbox [OF assms, of "\<lambda>i. i\<lparr>learningMetrics := Some m\<rparr>", OF this]
  show ?thesis
    by (simp add: updateInboxLearning_def m cachedPolicyOf_def policyOf_def)
qed

lemma view_never_recomputes:
  "inboxDB (handleSelectContract ui st contractId clk) = inboxDB st"
  by (simp add: handleSelectContract_def markAsRead_def Let_def
        split: option.splits prod.splits)

lemma analyzer_baseline_is_fixed:
  "\<exists>m. analyzeFeedbackPatterns db inboxId t1 t2 = Inr m \<and>
       dynamicMinScore m =
         (if getFeedbackForInbox db inboxId = [] then 30
          else threshold (calculateDynamicThreshold (getFeedbackForInbox db inboxId) 50))"
proof -
  obtain m where "analyzeFeedbackPatterns db inboxId t1 t2 = Inr m"
    and "dynamicMinScore m =
         (if getFeedbackForInbox db inboxId = [] then 30
          else threshold (calculateDynamicThreshold (getFeedbackForInbox db inboxId) 50))"
    by (rule analyze_fields)
  then show ?thesis by blast
qed

lemma threshold_cases:
  "(10 \<le> length events \<longrightarrow>
      30 \<le> threshold (calculateDynamicThreshold events cutoff) \<and>
      threshold (calculateDynamicThreshold events cutoff) \<le> 70) \<and>
   (length events < 10 \<longrightarrow> threshold (calculateDynamicThreshold events cutoff) = cutoff) \<and>
   (30 \<le> cutoff \<and> cutoff \<le> 70 \<longrightarrow>
      30 \<le> threshold (calculateDynamicThreshold events cutoff) \<and>
      threshold (calculateDynamicThreshold events cutoff) \<le> 70)"
proof (cases "10 \<le> length events")
  case True
  from threshold_in_range [OF True, of cutoff] True show ?thesis by simp
next
  case False
  then have "threshold (calculateDynamicThreshold events cutoff) = cutoff"
    by (simp add: calculateDynamicThreshold_def)
  with False show ?thesis by simp
qed

lemma controller_clamped_rules:
  assumes "10 \<le> length events"
  shows "threshold (calculateDynamicThreshold events cutoff) =
     max 30 (min 70 (statedRules events cutoff))"
  by (simp only: statedRules_def mostRecent_drop Let_def controller_threshold [OF assms])

lemma tenSaves_rules:
  "10 \<le> length tenSaves"
  "mostRecent 20 tenSaves = tenSaves"
  "narrowRuleFires tenSaves = False"
  "expandRuleFires tenSaves 50 = True"
  "expandRuleFires tenSaves 81 = True"
  "expandRuleFires tenSaves 100 = True"
  by (simp_all add: mostRecent_def narrowRuleFires_def expandRuleFires_def tenSaves_def)

lemma tenHides_rules:
  "10 \<le> length tenHides"
  "mostRecent 20 tenHides = tenHides"
  "narrowRuleFires tenHides = True"
  by (simp_all add: mostRecent_def narrowRuleFires_def tenHides_def)

lemma bothRulesLedger_rules:
  "10 \<le> length bothRulesLedger"
  "mostRecent 20 bothRulesLedger = bothRulesLedger"
  "narrowRuleFires bothRulesLedger = True"
  "expandRuleFires bothRulesLedger 50 = True"
  by (simp_all add: mostRecent_def narrowRuleFires_def expandRuleFires_def bothRulesLedger_def)


lemma boostFor_plain:
  "key \<notin> set objectPrototypeMembers \<Longrightarrow> boostFor [] key = BoostNumber 0"
  by (simp add: boostFor_def)

lemma addBoost_zero: "addBoost v (BoostNumber 0) = v"
  by (simp add: addBoost_def)

lemma round_clamp_fixed:
  assumes "wholeScoreInRange v"
  shows "js_max 0 (js_min 100 (js_round (Number v))) = v"
proof (cases v)
  case (Num x)
  with assms have whole: "x = of_int \<lfloor>x\<rfloor>" and range: "0 \<le> x" "x \<le> 100"
    by (simp_all add: wholeScoreInRange_def)
  have "Math_round x = \<lfloor>x\<rfloor>"
    using Math_round_of_int [of "\<lfloor>x\<rfloor>"] whole by simp
  then have "js_round (Number v) = Num x"
    using whole by (simp add: js_round_def Num)
  then show ?thesis
    using range by (simp add: js_max_def js_min_def Num)
next
  case NaN
  then show ?thesis by (simp add: js_round_def js_min_def js_max_def)
qed

lemma boosts_noop:
  assumes "authorityBoosts m = []" "classificationBoosts m = []"
    and "\<forall>r\<in>set results. wholeScoreInRange (sr_matchScore r) \<and> plainNames r"
  shows "applyLearnedBoosts results (Some m) = results"
proof -
  have "map (\<lambda>result. result\<lparr>sr_matchScore :=
           js_max 0 (js_min 100 (js_round
             (addBoost (addBoost (Number (sr_matchScore result))
                 (boostFor [] (authority (contract result))))
               (boostFor [] (buyerClassification (contract result))))))\<rparr>) results = results"
    using assms(3)
    by (intro map_idI) (simp add: plainNames_def boostFor_plain addBoost_zero round_clamp_fixed)
  then show ?thesis
    by (simp add: applyLearnedBoosts_def assms(1,2) Let_def)
qed



lemma rescored:
  "js_max 0 (js_min 100 (js_round (Number (Num 150)))) = Num 100"
  "js_max 0 (js_min 100 (js_round (Number (Num (- 5))))) = Num 0"
  "js_max 0 (js_min 100 (js_round (Number (Num (101 / 2))))) = Num 51"
  "js_max 0 (js_min 100 (js_round NotNumeric)) = NaN"
  by (simp_all add: js_max_def js_min_def js_round_def Math_round_def)

lemma example_boost_entries:
  "boostFor [] ''NHS Surrey'' = BoostNumber 0"
  "boostFor [] ''Central'' = BoostNumber 0"
  "boostFor [] ''constructor'' = PrototypeMember"
  "boostFor [] ''toString'' = PrototypeMember"
  by (simp_all add: boostFor_def objectPrototypeMembers_def)

lemma example_results_plain:
  "wholeScoreInRange (sr_matchScore (exampleResult 10))"
  "wholeScoreInRange (sr_matchScore (exampleResult 40))"
  "wholeScoreInRange (sr_matchScore (exampleResult 72))"
  "wholeScoreInRange (sr_matchScore (exampleResult 85))"
  "plainNames (exampleResult s)"
  by (simp_all add: wholeScoreInRange_def plainNames_def exampleResult_def resultFrom_def
      exampleContract_def objectPrototypeMembers_def)

lemma open_boost_stage:
  assumes "10 \<le> n"
  shows "applyLearnedBoosts [resultFrom auth cls score]
     (Some \<lparr>lm_inboxId = i, minRelevanceScore = lo, maxIrrelevanceScore = hi,
        dynamicMinScore = dyn, thresholdAdjustments = adj, promptRefinements = refinements,
        pendingPromptUpdate = pending, totalFeedback = n, savedContracts = sc,
        hiddenContracts = hc, viewedContracts = vc, authorityBoosts = [],
        classificationBoosts = [], confidenceLevel = min 100 (5 * int n), lastUpdated = t\<rparr>) =
     [resultFrom auth cls
        (js_max 0 (js_min 100 (js_round
           (addBoost (addBoost (Number score) (boostFor [] auth)) (boostFor [] cls)))))]"
proof -
  have gate: "\<not> n < 10" "\<not> min 100 (5 * int n) < 50"
    using assms by simp_all
  show ?thesis
    by (simp add: applyLearnedBoosts_def Let_def resultFrom_def gate)
qed

section \<open>The claims\<close>

text \<open>
  Claim C1 (the controller's result always lies in [30, 70], for any history and any
  starting cutoff). With fewer than 10 events the controller returns the starting
  cutoff as it is, before the clamp: on the empty history and the starting cutoff 100
  (a value the threshold slider can store) the result is 100, above 70.
\<close>

theorem early_return_skips_clamp:
  "threshold (calculateDynamicThreshold [] 100) = 100 \<and>
   \<not> threshold (calculateDynamicThreshold [] 100) \<le> 70"
  by (simp add: calculateDynamicThreshold_def)

text \<open>
  Claim C2 (a recompute applies the controller to the collection's live cutoff, a
  persisted user override included, not to a fixed baseline). The analyzer passes
  the constant 50. Here the user sets the live cutoff of an inbox to 70 and then saves
  a contract: the controller applied to the live cutoff 70 and the one-event ledger
  gives 70, the recompute stores 50.
\<close>

theorem recompute_discards_live_cutoff:
  "map_option dynamicMinScore (cachedPolicyOf (inboxDB afterOverride) ''inbox-1'') = Some 70 \<and>
   length (getFeedbackForInbox (feedbackDB afterOverrideAndSave) ''inbox-1'') = 1 \<and>
   threshold (calculateDynamicThreshold
                (getFeedbackForInbox (feedbackDB afterOverrideAndSave) ''inbox-1'') 70) = 70 \<and>
   map_option dynamicMinScore (cachedPolicyOf (inboxDB afterOverrideAndSave) ''inbox-1'') = Some 50"
proof -
  have inbox: "getInboxById (Inr [allContractsInbox, regularInbox]) ''inbox-1'' = Some regularInbox"
    by (simp add: getInboxById_def idb_get_def allContractsInbox_def regularInbox_def)
  have over: "inboxDB afterOverride =
      snd (updateInbox (Inr [allContractsInbox, regularInbox]) ''inbox-1''
             (\<lambda>i. i\<lparr>learningMetrics := Some (overrideMetrics regularInbox 70 exampleReadings)\<rparr>)
             (inboxUpdatedAt exampleReadings))"
     and others: "feedbackDB afterOverride = Inr []" "contractDB afterOverride = Inr [exampleContract]"
    by (simp_all add: afterOverride_def handleGlobalThresholdChange_def regularPage_def
          exampleStores_def regularInbox_def)
  have stored: "getInboxById (inboxDB afterOverride) ''inbox-1'' =
      Some (regularInbox\<lparr>learningMetrics := Some (overrideMetrics regularInbox 70 exampleReadings),
                         updatedAt := inboxUpdatedAt exampleReadings\<rparr>)"
    unfolding over
    by (subst getInboxById_updateInbox [OF inbox]) (simp_all add: regularInbox_def)
  have first: "map_option dynamicMinScore (cachedPolicyOf (inboxDB afterOverride) ''inbox-1'') = Some 70"
    by (simp add: cachedPolicyOf_def stored overrideMetrics_def Let_def)
  have base: "find (\<lambda>c. c_id c = ''contract-1'')
                (baseContracts (regularPage\<lparr>activeInbox := getInboxById (inboxDB afterOverride) ''inbox-1''\<rparr>)) =
                Some (exampleContract\<lparr>c_matchScore := Some 80\<rparr>)"
    unfolding stored
    by (simp add: baseContracts_def regularPage_def regularInbox_def exampleContract_def)
  have ctx: "inboxContext (regularPage\<lparr>activeInbox := getInboxById (inboxDB afterOverride) ''inbox-1''\<rparr>)
               (Some (exampleContract\<lparr>c_matchScore := Some 80\<rparr>)) =
               Some \<lparr>ctx_inboxId = Some ''inbox-1'', ctx_matchScore = Some 80\<rparr>"
    unfolding stored
    by (simp add: inboxContext_def regularPage_def regularInbox_def)
  let ?event = "\<lparr>fb_id = newFeedbackId exampleReadings, fb_inboxId = ''inbox-1'',
                  fb_contractId = ''contract-1'', action = Saved, fb_matchScore = 80,
                  fb_timestamp = feedbackAt exampleReadings, hideReason = None,
                  viewDuration = None\<rparr>"
  have after: "inboxDB afterOverrideAndSave =
      snd (updateInboxLearning (Inr [?event]) (inboxDB afterOverride) ''inbox-1'' exampleReadings)"
    and ledger: "feedbackDB afterOverrideAndSave = Inr [?event]"
    unfolding afterOverrideAndSave_def handleSaveContract_def base ctx Let_def
    by (simp_all add: saveContract_def recordAndLearn_def recordFeedback_def others
          idb_put_def exampleContract_def Let_def)
  have fb: "getFeedbackForInbox (Inr [?event]) ''inbox-1'' = [?event]"
    by (simp add: getFeedbackForInbox_def)
  have second: "length (getFeedbackForInbox (feedbackDB afterOverrideAndSave) ''inbox-1'') = 1"
    and third: "threshold (calculateDynamicThreshold
                (getFeedbackForInbox (feedbackDB afterOverrideAndSave) ''inbox-1'') 70) = 70"
    unfolding ledger fb by (simp_all add: calculateDynamicThreshold_def)
  have fourth: "map_option dynamicMinScore (cachedPolicyOf (inboxDB afterOverrideAndSave) ''inbox-1'') = Some 50"
    unfolding after recompute_overwrites_cached_policy [OF stored]
    by (simp add: analyzeFeedbackPatterns_def fb policyOf_def Let_def calculateDynamicThreshold_def)
  from first second third fourth show ?thesis by blast
qed

text \<open>
  Claim C3 (recomputing twice on an unchanged ledger yields identical policies; the
  policy depends on nothing but the ledger, not on the clock). The policy carries two
  readings of the clock, \<open>thresholdAdjustments.lastAdjustment\<close> and \<open>lastUpdated\<close>.
  As amended: two recomputes on the same ledger agree in every field but these two,
  which hold the clock readings of each recompute.
\<close>

theorem recompute_agrees_up_to_timestamps:
  "\<exists>m. analyzeFeedbackPatterns db inboxId t1 t2 = Inr m \<and>
       analyzeFeedbackPatterns db inboxId t1' t2' =
         Inr (m\<lparr>thresholdAdjustments := (thresholdAdjustments m)\<lparr>lastAdjustment := t1'\<rparr>,
                lastUpdated := t2'\<rparr>)"
proof (cases "getFeedbackForInbox db inboxId = []")
  case True
  show ?thesis by (simp add: analyze_empty [OF True])
next
  case False
  show ?thesis by (simp add: analyze_nonempty [OF False] Let_def)
qed

text \<open>
  C3 as stated fails: the same ledger, analysed at two different times, gives two
  different policies.
\<close>

theorem recompute_depends_on_clock:
  "analyzeFeedbackPatterns (Inr scenarioB) ''inbox-1''
      ''2025-01-02T00:00:00.001Z'' ''2025-01-02T00:00:00.002Z'' \<noteq>
   analyzeFeedbackPatterns (Inr scenarioB) ''inbox-1''
      ''2025-01-03T00:00:00.001Z'' ''2025-01-03T00:00:00.002Z''"
proof -
  have ne: "getFeedbackForInbox (Inr scenarioB) ''inbox-1'' \<noteq> []"
    unfolding scenarioB_ledger by (simp add: scenarioB_def)
  show ?thesis by (simp add: analyze_nonempty [OF ne] Let_def)
qed




text \<open>
  Claim C5 (a save, hide or view against the "all contracts" collection leaves its
  cached \<open>learningMetrics\<close> unchanged). Saving or hiding a contract while the "all
  contracts" inbox is active records feedback under that inbox and recomputes its
  policy: the inbox had no metrics before and has metrics counting one event after.
\<close>

theorem save_in_all_contracts_updates_policy:
  "cachedPolicyOf (inboxDB exampleStores) ''inbox-0'' = None \<and>
   map_option totalFeedback (cachedPolicyOf (inboxDB afterSaveInAllContracts) ''inbox-0'') = Some 1 \<and>
   map_option minRelevanceScore (cachedPolicyOf (inboxDB afterSaveInAllContracts) ''inbox-0'') =
     Some 90 \<and>
   map_option totalFeedback (cachedPolicyOf (inboxDB afterHideInAllContracts) ''inbox-0'') = Some 1 \<and>
   map_option hiddenContracts (cachedPolicyOf (inboxDB afterHideInAllContracts) ''inbox-0'') = Some 1"
proof -
  have before: "cachedPolicyOf (inboxDB exampleStores) ''inbox-0'' = None"
    by (simp add: exampleStores_def cachedPolicyOf_def getInboxById_def idb_get_def
          allContractsInbox_def)
  have inbox: "getInboxById (Inr [allContractsInbox, regularInbox]) ''inbox-0'' = Some allContractsInbox"
    by (simp add: getInboxById_def idb_get_def allContractsInbox_def)
  have base: "find (\<lambda>c. c_id c = ''contract-1'') (baseContracts allContractsPage) =
                Some (exampleContract\<lparr>c_matchScore := Some 100\<rparr>)"
    by (simp add: baseContracts_def allContractsPage_def allContractsInbox_def exampleContract_def)
  have ctx: "inboxContext allContractsPage (Some (exampleContract\<lparr>c_matchScore := Some 100\<rparr>)) =
               Some \<lparr>ctx_inboxId = Some ''inbox-0'', ctx_matchScore = Some 100\<rparr>"
    by (simp add: inboxContext_def allContractsPage_def allContractsInbox_def)
  have saved: "inboxDB afterSaveInAllContracts =
      snd (updateInboxLearning
             (Inr [\<lparr>fb_id = newFeedbackId exampleReadings, fb_inboxId = ''inbox-0'',
                      fb_contractId = ''contract-1'', action = Saved, fb_matchScore = 100,
                      fb_timestamp = feedbackAt exampleReadings, hideReason = None,
                      viewDuration = None\<rparr>])
             (Inr [allContractsInbox, regularInbox]) ''inbox-0'' exampleReadings)"
    unfolding afterSaveInAllContracts_def handleSaveContract_def base ctx Let_def
    by (simp add: saveContract_def recordAndLearn_def recordFeedback_def exampleStores_def
          idb_put_def exampleContract_def Let_def)
  have hid: "inboxDB afterHideInAllContracts =
      snd (updateInboxLearning
             (Inr [\<lparr>fb_id = newFeedbackId exampleReadings, fb_inboxId = ''inbox-0'',
                      fb_contractId = ''contract-1'', action = Hidden, fb_matchScore = 100,
                      fb_timestamp = feedbackAt exampleReadings, hideReason = Some ''Not relevant'',
                      viewDuration = None\<rparr>])
             (Inr [allContractsInbox, regularInbox]) ''inbox-0'' exampleReadings)"
    unfolding afterHideInAllContracts_def handleHideContract_def base ctx Let_def
    by (simp add: hideContract_def recordAndLearn_def recordFeedback_def exampleStores_def
          idb_put_def Let_def)
  show ?thesis
    unfolding saved hid recompute_overwrites_cached_policy [OF inbox] before
    by (simp add: analyzeFeedbackPatterns_def getFeedbackForInbox_def policyOf_def Let_def
          Math_round_of_int)
qed

text \<open>
  Claim C6 (with at least 10 events the controller conforms to the rule set over the
  most recent 20 events: expand lowers the cutoff by exactly 10 floored at 30, narrow
  raises it by exactly 10 capped at 70, and narrow overwrites expand when both fire).
  As amended: the controller returns the outcome of these rules clamped once more to
  the range from 30 to 70. So the narrow rule raises the cutoff by 10 capped at 70
  when the cutoff is at least 20, and the expand rule, when narrow does not fire,
  lowers it by 10 floored at 30 when the cutoff is at most 80.
\<close>

theorem controller_conforms_to_clamped_rules:
  assumes "10 \<le> length events"
  shows "threshold (calculateDynamicThreshold events cutoff) =
           max 30 (min 70 (statedRules events cutoff)) \<and>
         (narrowRuleFires (mostRecent 20 events) \<and> 20 \<le> cutoff \<longrightarrow>
            threshold (calculateDynamicThreshold events cutoff) = min 70 (cutoff + 10)) \<and>
         (\<not> narrowRuleFires (mostRecent 20 events) \<and>
          expandRuleFires (mostRecent 20 events) cutoff \<and> cutoff \<le> 80 \<longrightarrow>
            threshold (calculateDynamicThreshold events cutoff) = max 30 (cutoff - 10))"
proof -
  note clamped = controller_clamped_rules [OF assms, of cutoff]
  have narrow: "threshold (calculateDynamicThreshold events cutoff) = min 70 (cutoff + 10)"
    if "narrowRuleFires (mostRecent 20 events)" "20 \<le> cutoff"
    using that unfolding clamped statedRules_def Let_def by simp
  have expand: "threshold (calculateDynamicThreshold events cutoff) = max 30 (cutoff - 10)"
    if "\<not> narrowRuleFires (mostRecent 20 events)"
       "expandRuleFires (mostRecent 20 events) cutoff" "cutoff \<le> 80"
    using that unfolding clamped statedRules_def Let_def by simp
  from clamped narrow expand show ?thesis by blast
qed

theorem controller_conforms_to_clamped_rules_witness:
  "10 \<le> length bothRulesLedger \<and>
   expandRuleFires (mostRecent 20 bothRulesLedger) 50 \<and>
   narrowRuleFires (mostRecent 20 bothRulesLedger) \<and>
   threshold (calculateDynamicThreshold bothRulesLedger 50) = 60 \<and>
   10 \<le> length tenSaves \<and>
   expandRuleFires (mostRecent 20 tenSaves) 50 \<and>
   \<not> narrowRuleFires (mostRecent 20 tenSaves) \<and>
   threshold (calculateDynamicThreshold tenSaves 50) = 40"
  using controller_conforms_to_clamped_rules [OF bothRulesLedger_rules(1), of 50]
    controller_conforms_to_clamped_rules [OF tenSaves_rules(1), of 50]
  by (simp add: bothRulesLedger_rules tenSaves_rules)

text \<open>
  C6 as stated fails outside these cutoffs. At cutoff 100 the expand rule fires on
  ten saves at score 55 and the rule's outcome is 90, yet the controller returns 70;
  at cutoff 0 the narrow rule fires on ten hides and its outcome is 10, yet the
  controller returns 30. The same happens just outside the bounds: at cutoff 81 the
  expand rule's outcome is 71 and the controller returns 70, at cutoff 19 the narrow
  rule's outcome is 29 and the controller returns 30.
\<close>

theorem final_clamp_overrides_the_rules:
  "10 \<le> length tenSaves \<and>
   expandRuleFires (mostRecent 20 tenSaves) 100 \<and>
   \<not> narrowRuleFires (mostRecent 20 tenSaves) \<and>
   statedRules tenSaves 100 = 90 \<and>
   threshold (calculateDynamicThreshold tenSaves 100) = 70 \<and>
   10 \<le> length tenHides \<and>
   narrowRuleFires (mostRecent 20 tenHides) \<and>
   statedRules tenHides 0 = 10 \<and>
   threshold (calculateDynamicThreshold tenHides 0) = 30 \<and>
   expandRuleFires (mostRecent 20 tenSaves) 81 \<and>
   statedRules tenSaves 81 = 71 \<and>
   threshold (calculateDynamicThreshold tenSaves 81) = 70 \<and>
   statedRules tenHides 19 = 29 \<and>
   threshold (calculateDynamicThreshold tenHides 19) = 30"
  unfolding controller_clamped_rules [OF tenSaves_rules(1)]
    controller_clamped_rules [OF tenHides_rules(1)] statedRules_def Let_def
  by (simp add: tenSaves_rules tenHides_rules)



text \<open>
  Claim C8 (a failed recompute, the failed ledger read included, leaves the cached
  policy untouched). A ledger read that fails does not make the analyzer raise:
  \<open>getFeedbackForInbox\<close> answers \<open>[]\<close>, the analyzer returns the bootstrap policy of an
  empty ledger, and \<open>updateInboxLearning\<close> writes it over the cached policy. Here the
  inbox holds the policy learned from 20 events and the feedback database cannot be
  read.
\<close>

theorem failed_ledger_read_resets_policy:
  "cachedPolicyOf (Inr [inboxWithPolicy]) ''inbox-1'' = Some learnedPolicy \<and>
   fst (updateInboxLearning (Inl IDBError) (Inr [inboxWithPolicy]) ''inbox-1'' exampleReadings) =
     analyzeFeedbackPatterns (Inr []) ''inbox-1'' ''2025-01-02T00:00:00.001Z''
       ''2025-01-02T00:00:00.002Z'' \<and>
   cachedPolicyOf
     (snd (updateInboxLearning (Inl IDBError) (Inr [inboxWithPolicy]) ''inbox-1'' exampleReadings))
     ''inbox-1'' =
     policyOf (analyzeFeedbackPatterns (Inr []) ''inbox-1'' ''2025-01-02T00:00:00.001Z''
       ''2025-01-02T00:00:00.002Z'') \<and>
   map_option totalFeedback
     (cachedPolicyOf
        (snd (updateInboxLearning (Inl IDBError) (Inr [inboxWithPolicy]) ''inbox-1'' exampleReadings))
        ''inbox-1'') = Some 0 \<and>
   totalFeedback learnedPolicy = 20"
proof -
  have empty: "getFeedbackForInbox (Inl IDBError) ''inbox-1'' = []"
              "getFeedbackForInbox (Inr []) ''inbox-1'' = []"
    by (simp_all add: getFeedbackForInbox_def)
  show ?thesis
    unfolding updateInboxLearning_def analyze_empty [OF empty(1)] analyze_empty [OF empty(2)]
    by (simp add: cachedPolicyOf_def getInboxById_def updateInbox_def idb_get_def idb_put_def
          inboxWithPolicy_def regularInbox_def exampleReadings_def policyOf_def learnedPolicy_def Let_def)
qed

text \<open>
  Claim C9 (hiding a contract in inbox X changes only that contract's hidden state for
  X). For every inbox Y other than X: every other contract of the store is as before;
  the contract's membership in \<open>hiddenInInboxes\<close> for Y and its \<open>hiddenMetadata\<close> entry
  for Y are as before, so a contract visible in Y stays visible in Y; it is hidden in
  X; and no field but \<open>hiddenInInboxes\<close> and \<open>hiddenMetadata\<close> changes. When the
  contract cannot be read nothing is written.
\<close>

theorem hiding_is_per_inbox:
  assumes "Y \<noteq> X"
  shows "(\<forall>k. k \<noteq> ident \<longrightarrow>
            getContractById (markContractAsHidden db ident X reason' now) k = getContractById db k) \<and>
         (getContractById db ident = None \<longrightarrow> markContractAsHidden db ident X reason' now = db) \<and>
         (\<forall>c. getContractById db ident = Some c \<longrightarrow>
            (\<exists>c'. getContractById (markContractAsHidden db ident X reason' now) ident = Some c' \<and>
                  (Y \<in> set (hiddenInboxesOf c') \<longleftrightarrow> Y \<in> set (hiddenInboxesOf c)) \<and>
                  hiddenMetadataOf c' Y = hiddenMetadataOf c Y \<and>
                  X \<in> set (hiddenInboxesOf c') \<and>
                  c' = c\<lparr>hiddenInInboxes := hiddenInInboxes c', hiddenMetadata := hiddenMetadata c'\<rparr>))"
proof (cases "getContractById db ident")
  case None
  then show ?thesis by (simp add: markContractAsHidden_def)
next
  case (Some c)
  have key: "c_id c = ident"
    using Some by (cases db) (auto simp: getContractById_def dest: idb_get_key)
  let ?hidden = "if X \<notin> set (hiddenInboxesOf c) then hiddenInboxesOf c @ [X] else hiddenInboxesOf c"
  let ?meta = "(hiddenMetadataOf c)(X \<mapsto> \<lparr>hiddenBy = None, hiddenDate = now, hiddenReason = reason'\<rparr>)"
  let ?upd = "\<lambda>c. c\<lparr>hiddenInInboxes := Some ?hidden, hiddenMetadata := Some ?meta\<rparr>"
  have db': "markContractAsHidden db ident X reason' now = snd (updateContract db ident ?upd)"
    by (simp add: markContractAsHidden_def Some Let_def)
  have get: "getContractById (markContractAsHidden db ident X reason' now) k =
               (if k = ident then Some (?upd c) else getContractById db k)" for k
    unfolding db' by (rule getContractById_updateContract [OF Some]) (simp add: key)
  have "Y \<in> set (hiddenInboxesOf (?upd c)) \<longleftrightarrow> Y \<in> set (hiddenInboxesOf c)"
    using assms by (simp add: hiddenInboxesOf_def)
  moreover have "hiddenMetadataOf (?upd c) Y = hiddenMetadataOf c Y"
    using assms by (simp add: hiddenMetadataOf_def)
  moreover have "X \<in> set (hiddenInboxesOf (?upd c))"
    by (simp add: hiddenInboxesOf_def)
  moreover have "?upd c = c\<lparr>hiddenInInboxes := hiddenInInboxes (?upd c),
                             hiddenMetadata := hiddenMetadata (?upd c)\<rparr>"
    by simp
  ultimately show ?thesis using get Some by auto
qed

theorem hiding_is_per_inbox_witness:
  "''inbox-2'' \<noteq> ''inbox-1'' \<and>
   getContractById (Inr [exampleContract]) ''contract-1'' = Some exampleContract \<and>
   (\<exists>c'. getContractById
           (markContractAsHidden (Inr [exampleContract]) ''contract-1'' ''inbox-1''
              (Some ''Not relevant'') ''2025-01-02T00:00:00.000Z'') ''contract-1'' = Some c' \<and>
         ''inbox-2'' \<notin> set (hiddenInboxesOf c') \<and>
         ''inbox-1'' \<in> set (hiddenInboxesOf c') \<and>
         hiddenMetadataOf c' ''inbox-2'' = None)"
proof -
  have ne: "''inbox-2'' \<noteq> ''inbox-1''" by simp
  have get: "getContractById (Inr [exampleContract]) ''contract-1'' = Some exampleContract"
    by (simp add: getContractById_def idb_get_def exampleContract_def)
  have before: "''inbox-2'' \<notin> set (hiddenInboxesOf exampleContract)"
               "hiddenMetadataOf exampleContract ''inbox-2'' = None"
    by (simp_all add: hiddenInboxesOf_def hiddenMetadataOf_def exampleContract_def)
  from hiding_is_per_inbox [OF ne, of "''contract-1''" "Inr [exampleContract]"
      "Some ''Not relevant''" "''2025-01-02T00:00:00.000Z''"] get before
  show ?thesis using ne by auto
qed

text \<open>
  Claim C10 (every policy the analyzer produces has empty boost maps, so
  \<open>applyLearnedBoosts\<close> returns every result's score unchanged, at 20 and more events
  too). As amended: every policy the analyzer produces has empty boost maps, and
  with such a policy \<open>applyLearnedBoosts\<close> returns the result list as it is whenever
  every score is a whole number from 0 to 100 (or \<open>NaN\<close>) and no authority or buyer
  classification names a member of \<open>Object.prototype\<close>.
\<close>

theorem analyzer_policy_boosts_empty:
  "\<exists>m. analyzeFeedbackPatterns db inboxId t1 t2 = Inr m \<and>
       authorityBoosts m = [] \<and> classificationBoosts m = [] \<and>
       ((\<forall>r\<in>set results. wholeScoreInRange (sr_matchScore r) \<and> plainNames r) \<longrightarrow>
          applyLearnedBoosts results (Some m) = results)"
proof -
  obtain m where m: "analyzeFeedbackPatterns db inboxId t1 t2 = Inr m"
    and a: "authorityBoosts m = []" and c: "classificationBoosts m = []"
    by (rule analyze_fields)
  from boosts_noop [OF a c] m a c show ?thesis by blast
qed

theorem analyzer_policy_boosts_empty_witness:
  "\<exists>m. analyzeFeedbackPatterns (Inr scenarioB) ''inbox-1''
          ''2025-01-02T00:00:00.001Z'' ''2025-01-02T00:00:00.002Z'' = Inr m \<and>
       totalFeedback m = 20 \<and> confidenceLevel m = 100 \<and>
       applyLearnedBoosts [exampleResult 72, exampleResult 40] (Some m) =
         [exampleResult 72, exampleResult 40]"
proof -
  obtain m where m: "analyzeFeedbackPatterns (Inr scenarioB) ''inbox-1''
          ''2025-01-02T00:00:00.001Z'' ''2025-01-02T00:00:00.002Z'' = Inr m"
    and noop: "(\<forall>r\<in>set [exampleResult 72, exampleResult 40].
                  wholeScoreInRange (sr_matchScore r) \<and> plainNames r) \<longrightarrow>
               applyLearnedBoosts [exampleResult 72, exampleResult 40] (Some m) =
                 [exampleResult 72, exampleResult 40]"
    using analyzer_policy_boosts_empty
      [where db = "Inr scenarioB" and inboxId = "''inbox-1''"
         and ?t1.0 = "''2025-01-02T00:00:00.001Z''" and ?t2.0 = "''2025-01-02T00:00:00.002Z''"
         and results = "[exampleResult 72, exampleResult 40]"]
    by blast
  obtain m' where m': "analyzeFeedbackPatterns (Inr scenarioB) ''inbox-1''
          ''2025-01-02T00:00:00.001Z'' ''2025-01-02T00:00:00.002Z'' = Inr m'"
    and total: "totalFeedback m' = length (getFeedbackForInbox (Inr scenarioB) ''inbox-1'')"
    and conf: "confidenceLevel m' = min 100 (5 * int (length (getFeedbackForInbox (Inr scenarioB) ''inbox-1'')))"
    by (rule analyze_fields)
  have same: "m' = m" using m m' by simp
  have "totalFeedback m = 20" "confidenceLevel m = 100"
    using total conf unfolding same scenarioB_ledger scenarioB_scores by simp_all
  moreover have "applyLearnedBoosts [exampleResult 72, exampleResult 40] (Some m) =
         [exampleResult 72, exampleResult 40]"
    using noop by (simp add: example_results_plain)
  ultimately show ?thesis using m by blast
qed

text \<open>
  C10 as stated fails on other results. With the policy derived from the 20 events of
  scenario B (empty boost maps, confidence 100) the stage rounds and clamps, so a
  score of 150 becomes 100, one of -5 becomes 0 and one of 50.5 becomes 51; and for a
  buyer named \<open>constructor\<close>, or classified \<open>toString\<close>, the read of the empty map
  answers with a member of \<open>Object.prototype\<close> and the score becomes \<open>NaN\<close>.
\<close>

theorem empty_boost_maps_still_rescore:
  "map_option authorityBoosts (policyOf (analyzeFeedbackPatterns (Inr scenarioB) ''inbox-1''
      ''2025-01-02T00:00:00.001Z'' ''2025-01-02T00:00:00.002Z'')) = Some [] \<and>
   map_option classificationBoosts (policyOf (analyzeFeedbackPatterns (Inr scenarioB) ''inbox-1''
      ''2025-01-02T00:00:00.001Z'' ''2025-01-02T00:00:00.002Z'')) = Some [] \<and>
   map_option totalFeedback (policyOf (analyzeFeedbackPatterns (Inr scenarioB) ''inbox-1''
      ''2025-01-02T00:00:00.001Z'' ''2025-01-02T00:00:00.002Z'')) = Some 20 \<and>
   applyLearnedBoosts [exampleResult 150]
     (policyOf (analyzeFeedbackPatterns (Inr scenarioB) ''inbox-1''
        ''2025-01-02T00:00:00.001Z'' ''2025-01-02T00:00:00.002Z'')) = [exampleResult 100] \<and>
   applyLearnedBoosts [exampleResult (- 5)]
     (policyOf (analyzeFeedbackPatterns (Inr scenarioB) ''inbox-1''
        ''2025-01-02T00:00:00.001Z'' ''2025-01-02T00:00:00.002Z'')) = [exampleResult 0] \<and>
   applyLearnedBoosts [exampleResult (101 / 2)]
     (policyOf (analyzeFeedbackPatterns (Inr scenarioB) ''inbox-1''
        ''2025-01-02T00:00:00.001Z'' ''2025-01-02T00:00:00.002Z'')) = [exampleResult 51] \<and>
   applyLearnedBoosts [resultFrom ''constructor'' ''Central'' (Num 72)]
     (policyOf (analyzeFeedbackPatterns (Inr scenarioB) ''inbox-1''
        ''2025-01-02T00:00:00.001Z'' ''2025-01-02T00:00:00.002Z'')) =
     [resultFrom ''constructor'' ''Central'' NaN] \<and>
   applyLearnedBoosts [resultFrom ''NHS Surrey'' ''toString'' (Num 72)]
     (policyOf (analyzeFeedbackPatterns (Inr scenarioB) ''inbox-1''
        ''2025-01-02T00:00:00.001Z'' ''2025-01-02T00:00:00.002Z'')) =
     [resultFrom ''NHS Surrey'' ''toString'' NaN]"
proof -
  have ne: "getFeedbackForInbox (Inr scenarioB) ''inbox-1'' \<noteq> []"
    unfolding scenarioB_ledger by (simp add: scenarioB_def)
  have n: "(10::nat) \<le> 20" by simp
  show ?thesis
    unfolding analyze_nonempty [OF ne] Let_def scenarioB_ledger scenarioB_scores
      policyOf_def sum.case exampleResult_def
      open_boost_stage [OF n] example_boost_entries addBoost_zero
    by (simp add: rescored addBoost_def)
qed

end
